theory Spec2Isabelle
  imports Main
begin

section \<open>Time and durations (Go package time)\<close>

text \<open>
  An instant (\<^verbatim>\<open>time.Time\<close>) is modelled as the number of nanoseconds since the zero
  time (January 1, year 1, 00:00:00 UTC), so \<^verbatim>\<open>time.Time{}\<close> is \<open>0\<close> and
  \<^verbatim>\<open>IsZero\<close> tests for \<open>0\<close>. Monotonic clock readings are not modelled.
  A \<^verbatim>\<open>time.Duration\<close> is an int64 count of nanoseconds: \<^verbatim>\<open>Time.Sub\<close> saturates at
  the smallest and largest duration, and arithmetic on durations wraps around.
\<close>

type_synonym time = int
type_synonym duration = int

definition IsZero :: "time \<Rightarrow> bool" where
  "IsZero t = (t = 0)"

definition Before :: "time \<Rightarrow> time \<Rightarrow> bool" where
  "Before t u = (t < u)"

definition After :: "time \<Rightarrow> time \<Rightarrow> bool" where
  "After t u = (t > u)"

definition maxDuration :: duration where
  "maxDuration = 2 ^ 63 - 1"

definition minDuration :: duration where
  "minDuration = - (2 ^ 63)"

definition wrap64 :: "int \<Rightarrow> duration" where
  "wrap64 x = (x + 2 ^ 63) mod 2 ^ 64 - 2 ^ 63"

definition Sub :: "time \<Rightarrow> time \<Rightarrow> duration" where
  "Sub t u =
     (let d = t - u
      in if d > maxDuration then maxDuration
         else if d < minDuration then minDuration
         else d)"

definition Since :: "time \<Rightarrow> time \<Rightarrow> duration" where
  \<comment> \<open>\<^verbatim>\<open>time.Since(t)\<close> with the clock reading \<open>now\<close>\<close>
  "Since now t = Sub now t"

definition dadd :: "duration \<Rightarrow> duration \<Rightarrow> duration" where
  "dadd a b = wrap64 (a + b)"

definition dmul :: "duration \<Rightarrow> int \<Rightarrow> duration" where
  "dmul a n = wrap64 (a * n)"

definition dquot :: "duration \<Rightarrow> int \<Rightarrow> duration" where
  \<comment> \<open>Go's integer division truncates toward zero\<close>
  "dquot a n = wrap64 (sgn a * sgn n * (\<bar>a\<bar> div \<bar>n\<bar>))"

definition Second :: duration where
  "Second = 1000000000"

definition Hour :: duration where
  "Hour = 3600 * Second"

definition Add :: "time \<Rightarrow> duration \<Rightarrow> time" where
  "Add t d = t + d"

section \<open>The in-memory cache (pkg/persist/gocache.go)\<close>

text \<open>
  \<^verbatim>\<open>Thing\<close> is a cache entry: a payload and the time it was created. The payload
  is opaque to the cache and is a type parameter here.
\<close>

record 'p Thing =
  Created :: time
  Payload :: 'p

text \<open>
  The go-cache library stores values of type \<^verbatim>\<open>interface{}\<close>. What matters to the
  type assertion \<^verbatim>\<open>x.(*Thing)\<close> is whether the dynamic type is \<^verbatim>\<open>*Thing\<close>, and
  then whether the pointer is nil.
\<close>

datatype 'p object = ThingPtr "'p Thing option" | OtherObject

record 'p item =
  Object :: "'p object"
  Expiration :: int

type_synonym 'p cache = "string \<rightharpoonup> 'p item"

datatype panic = NilDereference | IndexOutOfRange | HoldTimeExceedsAge

definition MaxSaveAge :: duration where
  "MaxSaveAge = 2 * 24 * Hour"

definition MaxLoadAge :: duration where
  "MaxLoadAge = 10 * 24 * Hour"

definition unixEpoch :: time where
  \<comment> \<open>January 1, 1970 UTC, in nanoseconds since the zero time\<close>
  "unixEpoch = 62135596800 * Second"

definition UnixNano :: "time \<Rightarrow> int" where
  "UnixNano t = wrap64 (t - unixEpoch)"

definition cache_Get :: "'p cache \<Rightarrow> string \<Rightarrow> time \<Rightarrow> 'p object option" where
  \<comment> \<open>go-cache \<^verbatim>\<open>Get\<close>: a missing or expired item is not found\<close>
  "cache_Get c k now =
     (case c k of
        None \<Rightarrow> None
      | Some it \<Rightarrow>
          if Expiration it > 0 \<and> UnixNano now > Expiration it then None
          else Some (Object it))"

definition cache_Set :: "'p cache \<Rightarrow> string \<Rightarrow> 'p object \<Rightarrow> duration \<Rightarrow> time \<Rightarrow> 'p cache" where
  \<comment> \<open>go-cache \<^verbatim>\<open>Set\<close> with a positive duration \<open>d\<close>\<close>
  "cache_Set c k x d now =
     c(k \<mapsto> \<lparr>Object = x, Expiration = (if d > 0 then UnixNano (Add now d) else 0)\<rparr>)"

definition cache_Delete :: "'p cache \<Rightarrow> string \<Rightarrow> 'p cache" where
  "cache_Delete c k = c(k := None)"

definition cache_DeleteExpired :: "'p cache \<Rightarrow> time \<Rightarrow> 'p cache" where
  \<comment> \<open>go-cache's janitor, run every \<^verbatim>\<open>memCleanupInterval\<close>\<close>
  "cache_DeleteExpired c now =
     (\<lambda>k. case c k of
            None \<Rightarrow> None
          | Some it \<Rightarrow>
              if Expiration it > 0 \<and> UnixNano now > Expiration it then None else Some it)"

definition createMem :: "'p cache" where
  "createMem = Map.empty"

definition loadMem :: "'p cache \<Rightarrow> 'p cache" where
  "loadMem items = items"

definition setMem :: "'p cache \<Rightarrow> string \<Rightarrow> 'p Thing option \<Rightarrow> time \<Rightarrow> panic + 'p cache" where
  "setMem c key th now =
     (case th of
        None \<Rightarrow> Inl NilDereference
      | Some v \<Rightarrow>
          let v' = (if IsZero (Created v) then v\<lparr>Created := now\<rparr> else v)
          in Inr (cache_Set c key (ThingPtr (Some v')) MaxLoadAge now))"

definition newerThanMem :: "'p cache \<Rightarrow> string \<Rightarrow> time \<Rightarrow> time \<Rightarrow> panic + 'p Thing option" where
  "newerThanMem c key t now =
     (case cache_Get c key now of
        None \<Rightarrow> Inr None
      | Some x \<Rightarrow>
          let th = (case x of ThingPtr p \<Rightarrow> p | OtherObject \<Rightarrow> None)
          in case th of
               None \<Rightarrow> Inl NilDereference
             | Some v \<Rightarrow> if Before (Created v) t then Inr None else Inr (Some v))"

definition deleteOlderMem :: "'p cache \<Rightarrow> string \<Rightarrow> time \<Rightarrow> time \<Rightarrow> panic + 'p cache" where
  "deleteOlderMem c key t now =
     (case newerThanMem c key t now of
        Inl e \<Rightarrow> Inl e
      | Inr i \<Rightarrow>
          (case i of
             Some v \<Rightarrow> if After (Created v) t then Inr c else Inr (cache_Delete c key)
           | None \<Rightarrow> Inr (cache_Delete c key)))"

text \<open>
  The caches that are populated through \<^verbatim>\<open>setMem\<close> only: created empty, written by
  \<^verbatim>\<open>setMem\<close>, and shrunk by \<^verbatim>\<open>deleteOlderMem\<close> and by the janitor.
\<close>

inductive set_populated :: "'p cache \<Rightarrow> bool" where
  sp_create: "set_populated createMem"
| sp_set: "set_populated c \<Longrightarrow> setMem c key th now = Inr c' \<Longrightarrow> set_populated c'"
| sp_delete: "set_populated c \<Longrightarrow> deleteOlderMem c key t now = Inr c' \<Longrightarrow> set_populated c'"
| sp_expire: "set_populated c \<Longrightarrow> set_populated (cache_DeleteExpired c now)"

definition all_things :: "'p cache \<Rightarrow> bool" where
  "all_things c = (\<forall>k it. c k = Some it \<longrightarrow> (\<exists>v. Object it = ThingPtr (Some v)))"

section \<open>Strings (Go package strings)\<close>

text \<open>
  A Go string is a sequence of bytes, here a \<open>string\<close>. \<^verbatim>\<open>strings.TrimSpace\<close>
  removes the leading and trailing runes for which \<^verbatim>\<open>unicode.IsSpace\<close> holds; in a
  byte string these are the UTF-8 encodings listed in \<open>spaceEncodings\<close>.
\<close>

definition HasPrefix :: "string \<Rightarrow> string \<Rightarrow> bool" where
  "HasPrefix s p = (take (length p) s = p)"

fun Contains :: "string \<Rightarrow> string \<Rightarrow> bool" where
  "Contains [] sub = (sub = [])"
| "Contains (x # xs) sub = (HasPrefix (x # xs) sub \<or> Contains xs sub)"

fun Split :: "string \<Rightarrow> char \<Rightarrow> string list" where
  "Split [] sep = [[]]"
| "Split (x # xs) sep =
     (if x = sep then [] # Split xs sep
      else (case Split xs sep of
              [] \<Rightarrow> [[x]]
            | l # ls \<Rightarrow> (x # l) # ls))"

definition spaceEncodings :: "string list" where
  "spaceEncodings =
     [[CHR 0x09], [CHR 0x0A], [CHR 0x0B], [CHR 0x0C], [CHR 0x0D], [CHR 0x20],
      [CHR 0xC2, CHR 0x85], [CHR 0xC2, CHR 0xA0],
      [CHR 0xE1, CHR 0x9A, CHR 0x80],
      [CHR 0xE2, CHR 0x80, CHR 0x80], [CHR 0xE2, CHR 0x80, CHR 0x81],
      [CHR 0xE2, CHR 0x80, CHR 0x82], [CHR 0xE2, CHR 0x80, CHR 0x83],
      [CHR 0xE2, CHR 0x80, CHR 0x84], [CHR 0xE2, CHR 0x80, CHR 0x85],
      [CHR 0xE2, CHR 0x80, CHR 0x86], [CHR 0xE2, CHR 0x80, CHR 0x87],
      [CHR 0xE2, CHR 0x80, CHR 0x88], [CHR 0xE2, CHR 0x80, CHR 0x89],
      [CHR 0xE2, CHR 0x80, CHR 0x8A],
      [CHR 0xE2, CHR 0x80, CHR 0xA8], [CHR 0xE2, CHR 0x80, CHR 0xA9],
      [CHR 0xE2, CHR 0x80, CHR 0xAF],
      [CHR 0xE2, CHR 0x81, CHR 0x9F],
      [CHR 0xE3, CHR 0x80, CHR 0x80]]"

definition spaceWidth :: "string list \<Rightarrow> string \<Rightarrow> nat" where
  \<comment> \<open>the number of bytes of the space rune \<open>s\<close> starts with, \<open>0\<close> if there is none\<close>
  "spaceWidth encs s = (case find (HasPrefix s) encs of None \<Rightarrow> 0 | Some p \<Rightarrow> length p)"

function trimLeft :: "string list \<Rightarrow> string \<Rightarrow> string" where
  "trimLeft encs s =
     (if spaceWidth encs s = 0 then s else trimLeft encs (drop (spaceWidth encs s) s))"
  by pat_completeness auto
termination
proof (relation "measure (\<lambda>(encs, s). length s)")
  show "wf (measure (\<lambda>(encs, s). length s))" by simp
next
  fix encs :: "string list" and s :: string
  assume w: "spaceWidth encs s \<noteq> 0"
  have "s \<noteq> []"
  proof
    assume "s = []"
    with w obtain p where "find (HasPrefix []) encs = Some p" and "length p \<noteq> 0"
      by (auto simp: spaceWidth_def split: option.splits)
    then show False
      by (auto simp: find_Some_iff HasPrefix_def)
  qed
  with w show "((encs, drop (spaceWidth encs s) s), (encs, s)) \<in> measure (\<lambda>(encs, s). length s)"
    by (cases s) auto
qed

definition TrimSpace :: "string \<Rightarrow> string" where
  "TrimSpace s = rev (trimLeft (map rev spaceEncodings) (rev (trimLeft spaceEncodings s)))"

section \<open>The conversation builder (pkg/hubbub/item.go)\<close>

text \<open>
  A \<^verbatim>\<open>*github.User\<close> is a pointer to a struct whose \<^verbatim>\<open>Login\<close> is a pointer to a
  string: \<^verbatim>\<open>GetLogin\<close> is nil-safe and returns the empty string, \<^verbatim>\<open>*u.Login\<close>
  panics on either nil. The other fields of a user are read by \<^verbatim>\<open>isBot\<close> only.
\<close>

record User =
  Login :: "string option"
  UserType :: string

definition GetLogin :: "User option \<Rightarrow> string" where
  "GetLogin u =
     (case u of
        None \<Rightarrow> ''''
      | Some v \<Rightarrow> (case Login v of None \<Rightarrow> '''' | Some l \<Rightarrow> l))"

definition derefLogin :: "User option \<Rightarrow> panic + string" where
  \<comment> \<open>\<^verbatim>\<open>*u.Login\<close>\<close>
  "derefLogin u =
     (case u of
        None \<Rightarrow> Inl NilDereference
      | Some v \<Rightarrow> (case Login v of None \<Rightarrow> Inl NilDereference | Some l \<Rightarrow> Inr l))"

record Milestone =
  MilestoneState :: string

record Reactions =
  TotalCount :: int

text \<open>The accessors of the interface \<^verbatim>\<open>GitHubItem\<close> that the builder reads.\<close>

record GitHubItem =
  GetAssignee :: "User option"
  GetAuthorAssociation :: string
  GetBody :: string
  GetComments :: int
  GetHTMLURL :: string
  GetCreatedAt :: time
  GetID :: int
  GetMilestone :: "Milestone option"
  GetNumber :: int
  GetClosedAt :: time
  GetState :: string
  GetTitle :: string
  GetURL :: string
  GetUpdatedAt :: time
  GetUser :: "User option"

record Comment =
  User :: "User option"
  AuthorAssoc :: string
  Body :: string
  CommentCreated :: time
  CommentUpdated :: time
  CommentReactions :: Reactions

text \<open>
  The tags of package \<^verbatim>\<open>tag\<close> that the builder appends. \<^verbatim>\<open>tag.RoleLast\<close> builds a
  tag from the role of the last commenter, a tag of its own for every role.
\<close>

datatype Tag =
  Assigned | Commented | Send | Recv | RecvQ | OpenMilestone | AssigneeUpdated
  | AuthorLast | RoleLast string | Closed | Similar

text \<open>
  The fields of \<^verbatim>\<open>Conversation\<close> that \<^verbatim>\<open>conversation\<close> writes. The references found
  by \<^verbatim>\<open>parseRefs\<close>, the map of reactions by kind and the two floating-point rates
  are left out.
\<close>

record Conversation =
  ID :: int
  URL :: string
  Author :: "User option"
  Title :: string
  State :: string
  Seen :: time
  ConversationCreated :: time
  Updated :: time
  CommentsTotal :: int
  ClosedAt :: time
  SelfInflicted :: bool
  LatestAuthorResponse :: time
  LatestMemberResponse :: time
  LatestAssigneeResponse :: time
  AccumulatedHoldTime :: duration
  CurrentHoldTime :: duration
  ConversationMilestone :: "Milestone option"
  LastCommentAuthor :: "User option"
  LastCommentBody :: string
  Organization :: string
  Project :: string
  Assignees :: "User option list"
  Commenters :: "User option list"
  Tags :: "Tag list"
  ReactionsTotal :: int
  ClosedCommentsTotal :: int
  CommentersTotal :: int
  ClosedCommentersTotal :: int

text \<open>
  The engine, as far as the builder and the searches read it. \<^verbatim>\<open>isBot\<close> and the
  library's \<^verbatim>\<open>strings.ToLower\<close> are parameters; \<^verbatim>\<open>debug\<close> is the map of item
  numbers to debug, as a list of its entries.
\<close>

record Engine =
  members :: "string \<Rightarrow> bool"
  memberRoles :: "string \<Rightarrow> bool"
  debug :: "(int \<times> bool) list"
  isBot :: "User option \<Rightarrow> bool"
  ToLower :: "string \<Rightarrow> string"

definition isMember :: "'e Engine_scheme \<Rightarrow> string \<Rightarrow> string \<Rightarrow> bool" where
  "isMember h user role =
     (if members h user then True
      else if memberRoles h (ToLower h role) then True
      else False)"

text \<open>The variables of the loop over the comments that are not fields of the conversation.\<close>

record Locals =
  lastQuestion :: time
  seenCommenters :: "string list"
  seenClosedCommenters :: "string list"
  seenMemberComment :: bool

definition markSeen :: "string \<Rightarrow> string list \<Rightarrow> string list" where
  \<comment> \<open>\<^verbatim>\<open>seen[login] = true\<close>, the keys of the map in the order they were added\<close>
  "markSeen l seen = (if l \<in> set seen then seen else seen @ [l])"

definition scanQuestion :: "string \<Rightarrow> time \<Rightarrow> time \<Rightarrow> time" where
  \<comment> \<open>lines 162 to 173: the value of \<^verbatim>\<open>lastQuestion\<close> after a comment with this body\<close>
  "scanQuestion body created lq =
     (if Contains body ''?''
      then foldl (\<lambda>q line.
                    let line = TrimSpace line
                    in if HasPrefix line ''>'' then q
                       else if Contains line ''?'' then created
                       else q)
                 lq (Split body (CHR 0x0A))
      else lq)"

text \<open>
  The body of the loop over the comments, lines 115 to 179, one definition for each of
  its blocks. Each takes the conversation and the local variables and returns them
  updated.
\<close>

type_synonym loopState = "Conversation \<times> Locals"

definition noteLast :: "Comment \<Rightarrow> loopState \<Rightarrow> loopState" where
  \<comment> \<open>lines 126 and 127\<close>
  "noteLast c st = ((fst st)\<lparr>LastCommentBody := Body c, LastCommentAuthor := User c\<rparr>, snd st)"

definition countReactions :: "Comment \<Rightarrow> loopState \<Rightarrow> loopState" where
  \<comment> \<open>lines 129 to 135, without the map of reactions by kind\<close>
  "countReactions c st =
     (let r = CommentReactions c
      in if TotalCount r > 0
         then ((fst st)\<lparr>ReactionsTotal := ReactionsTotal (fst st) + TotalCount r\<rparr>, snd st)
         else st)"

definition countClosed :: "GitHubItem \<Rightarrow> Comment \<Rightarrow> string \<Rightarrow> loopState \<Rightarrow> loopState" where
  \<comment> \<open>lines 137 to 141, \<open>login\<close> being \<^verbatim>\<open>*c.User.Login\<close>\<close>
  "countClosed i c login st =
     (if \<not> IsZero (GetClosedAt i)
         \<and> After (CommentCreated c) (Add (GetClosedAt i) (30 * Second))
      then ((fst st)\<lparr>ClosedCommentsTotal := ClosedCommentsTotal (fst st) + 1\<rparr>,
            (snd st)\<lparr>seenClosedCommenters := markSeen login (seenClosedCommenters (snd st))\<rparr>)
      else st)"

definition authorResponse :: "GitHubItem \<Rightarrow> Comment \<Rightarrow> loopState \<Rightarrow> loopState" where
  \<comment> \<open>lines 143 to 145\<close>
  "authorResponse i c st =
     (if GetLogin (User c) = GetLogin (GetUser i)
      then ((fst st)\<lparr>LatestAuthorResponse := CommentCreated c\<rparr>, snd st)
      else st)"

definition assigneeResponse :: "GitHubItem \<Rightarrow> Comment \<Rightarrow> loopState \<Rightarrow> loopState" where
  \<comment> \<open>lines 147 to 149\<close>
  "assigneeResponse i c st =
     (if GetLogin (User c) = GetLogin (GetAssignee i)
      then ((fst st)\<lparr>LatestAssigneeResponse := CommentCreated c\<rparr>, snd st)
      else st)"

definition accumulateHold :: "bool \<Rightarrow> Comment \<Rightarrow> Conversation \<Rightarrow> Conversation" where
  \<comment> \<open>lines 152 to 154\<close>
  "accumulateHold authorIsMember c co =
     (if \<not> After (LatestMemberResponse co) (LatestAuthorResponse co) \<and> \<not> authorIsMember
      then co\<lparr>AccumulatedHoldTime :=
                dadd (AccumulatedHoldTime co) (Sub (CommentCreated c) (LatestAuthorResponse co))\<rparr>
      else co)"

definition memberResponse :: "'e Engine_scheme \<Rightarrow> bool \<Rightarrow> Comment \<Rightarrow> loopState \<Rightarrow> loopState" where
  \<comment> \<open>lines 151 to 160\<close>
  "memberResponse h authorIsMember c st =
     (if isMember h (GetLogin (User c)) (AuthorAssoc c) \<and> \<not> isBot h (User c)
      then
        let co = accumulateHold authorIsMember c (fst st);
            co = co\<lparr>LatestMemberResponse := CommentCreated c\<rparr>
        in if \<not> seenMemberComment (snd st)
           then (co\<lparr>Tags := Tags co @ [Commented]\<rparr>, (snd st)\<lparr>seenMemberComment := True\<rparr>)
           else (co, snd st)
      else st)"

definition question :: "Comment \<Rightarrow> loopState \<Rightarrow> loopState" where
  \<comment> \<open>lines 162 to 173\<close>
  "question c st =
     (fst st,
      (snd st)\<lparr>lastQuestion := scanQuestion (Body c) (CommentCreated c) (lastQuestion (snd st))\<rparr>)"

definition commenter :: "Comment \<Rightarrow> string \<Rightarrow> loopState \<Rightarrow> loopState" where
  \<comment> \<open>lines 175 to 178, \<open>login\<close> being \<^verbatim>\<open>*c.User.Login\<close>\<close>
  "commenter c login st =
     (if login \<notin> set (seenCommenters (snd st))
      then ((fst st)\<lparr>Commenters := Commenters (fst st) @ [User c]\<rparr>,
            (snd st)\<lparr>seenCommenters := markSeen login (seenCommenters (snd st))\<rparr>)
      else st)"

definition commentStep ::
  "'e Engine_scheme \<Rightarrow> GitHubItem \<Rightarrow> bool \<Rightarrow> loopState \<Rightarrow> Comment \<Rightarrow> panic + loopState" where
  \<comment> \<open>a bot's comment is skipped; every other comment reaches \<^verbatim>\<open>*c.User.Login\<close> on
      line 175 at the latest, so a nil user or login panics\<close>
  "commentStep h i authorIsMember st c =
     (if isBot h (User c) then Inr st
      else case derefLogin (User c) of
             Inl e \<Rightarrow> Inl e
           | Inr login \<Rightarrow>
               Inr (commenter c login
                     (question c
                       (memberResponse h authorIsMember c
                         (assigneeResponse i c
                           (authorResponse i c
                             (countClosed i c login
                               (countReactions c
                                 (noteLast c st)))))))))"

fun commentLoop ::
  "'e Engine_scheme \<Rightarrow> GitHubItem \<Rightarrow> bool \<Rightarrow> loopState \<Rightarrow> Comment list \<Rightarrow> panic + loopState" where
  "commentLoop h i authorIsMember st [] = Inr st"
| "commentLoop h i authorIsMember st (c # cs) =
     (case commentStep h i authorIsMember st c of
        Inl e \<Rightarrow> Inl e
      | Inr st' \<Rightarrow> commentLoop h i authorIsMember st' cs)"

text \<open>
  The clock is read three times after the loop: for the current hold time (line 188),
  for the accumulated hold time (line 189) and for the check of the accumulated hold
  time against the age of the item (line 225).
\<close>

record Clock =
  sinceCurrent :: time
  sinceAccumulated :: time
  sinceCheck :: time

definition initialConversation :: "GitHubItem \<Rightarrow> bool \<Rightarrow> time \<Rightarrow> Conversation" where
  \<comment> \<open>lines 72 to 89; the fields that the literal does not name have their zero value\<close>
  "initialConversation i authorIsMember age =
     \<lparr>ID = GetNumber i,
      URL = GetHTMLURL i,
      Author = GetUser i,
      Title = GetTitle i,
      State = GetState i,
      Seen = age,
      ConversationCreated = GetCreatedAt i,
      Updated = 0,
      CommentsTotal = GetComments i,
      ClosedAt = GetClosedAt i,
      SelfInflicted = authorIsMember,
      LatestAuthorResponse = GetCreatedAt i,
      LatestMemberResponse = 0,
      LatestAssigneeResponse = 0,
      AccumulatedHoldTime = 0,
      CurrentHoldTime = 0,
      ConversationMilestone = GetMilestone i,
      LastCommentAuthor = GetUser i,
      LastCommentBody = GetBody i,
      Organization = [],
      Project = [],
      Assignees = [],
      Commenters = [],
      Tags = [],
      ReactionsTotal = 0,
      ClosedCommentsTotal = 0,
      CommentersTotal = 0,
      ClosedCommentersTotal = 0\<rparr>"

definition initialLocals :: Locals where
  "initialLocals =
     \<lparr>lastQuestion = 0, seenCommenters = [], seenClosedCommenters = [],
      seenMemberComment = False\<rparr>"

definition beforeLoop :: "GitHubItem \<Rightarrow> bool \<Rightarrow> time \<Rightarrow> panic + Conversation" where
  \<comment> \<open>lines 72 to 104\<close>
  "beforeLoop i authorIsMember age =
     (let co = initialConversation i authorIsMember age;
          urlParts = Split (GetHTMLURL i) (CHR ''/'')
      in if length urlParts \<le> 4 then Inl IndexOutOfRange
         else
           let co = co\<lparr>Organization := urlParts ! 3, Project := urlParts ! 4\<rparr>;
               co = (if GetAssignee i \<noteq> None
                     then co\<lparr>Assignees := Assignees co @ [GetAssignee i],
                             Tags := Tags co @ [Assigned]\<rparr>
                     else co);
               co = (if \<not> authorIsMember
                     then co\<lparr>LatestMemberResponse := GetCreatedAt i\<rparr> else co)
           in Inr co)"

definition holdTags :: "bool \<Rightarrow> Clock \<Rightarrow> Conversation \<Rightarrow> Conversation" where
  \<comment> \<open>lines 181 to 190\<close>
  "holdTags authorIsMember clk co =
     (if After (LatestMemberResponse co) (LatestAuthorResponse co)
      then co\<lparr>Tags := Tags co @ [Send], CurrentHoldTime := 0\<rparr>
      else if \<not> authorIsMember
      then
        let co = co\<lparr>Tags := Tags co @ [Recv]\<rparr>;
            co = co\<lparr>CurrentHoldTime :=
                      dadd (CurrentHoldTime co) (Since (sinceCurrent clk) (LatestAuthorResponse co))\<rparr>;
            co = co\<lparr>AccumulatedHoldTime :=
                      dadd (AccumulatedHoldTime co)
                           (Since (sinceAccumulated clk) (LatestAuthorResponse co))\<rparr>
        in co
      else co)"

definition lastCommentTags ::
  "'e Engine_scheme \<Rightarrow> GitHubItem \<Rightarrow> Comment list \<Rightarrow> Conversation \<Rightarrow> Conversation" where
  \<comment> \<open>lines 205 to 216\<close>
  "lastCommentTags h i cs co =
     (if length cs > 0
      then
        let l = cs ! (length cs - 1);
            assoc = ToLower h (AuthorAssoc l);
            co = (if assoc = ''none''
                  then (if GetLogin (User l) = GetLogin (GetUser i)
                        then co\<lparr>Tags := Tags co @ [AuthorLast]\<rparr> else co)
                  else co\<lparr>Tags := Tags co @ [RoleLast assoc]\<rparr>)
        in co\<lparr>Updated := CommentUpdated l\<rparr>
      else co)"

definition questionTag :: "time \<Rightarrow> Conversation \<Rightarrow> Conversation" where
  \<comment> \<open>lines 192 to 195\<close>
  "questionTag lq co =
     (if After lq (LatestMemberResponse co) then co\<lparr>Tags := Tags co @ [RecvQ]\<rparr> else co)"

definition milestoneTag :: "Conversation \<Rightarrow> Conversation" where
  \<comment> \<open>lines 197 to 199\<close>
  "milestoneTag co =
     (case ConversationMilestone co of
        None \<Rightarrow> co
      | Some m \<Rightarrow> if MilestoneState m = ''open'' then co\<lparr>Tags := Tags co @ [OpenMilestone]\<rparr>
                  else co)"

definition assigneeTag :: "Conversation \<Rightarrow> Conversation" where
  \<comment> \<open>lines 201 to 203\<close>
  "assigneeTag co =
     (if \<not> IsZero (LatestAssigneeResponse co) then co\<lparr>Tags := Tags co @ [AssigneeUpdated]\<rparr>
      else co)"

definition closedTag :: "Conversation \<Rightarrow> Conversation" where
  \<comment> \<open>lines 218 to 220\<close>
  "closedTag co = (if State co = ''closed'' then co\<lparr>Tags := Tags co @ [Closed]\<rparr> else co)"

definition totals :: "Locals \<Rightarrow> Conversation \<Rightarrow> Conversation" where
  \<comment> \<open>lines 222 and 223\<close>
  "totals lo co =
     co\<lparr>CommentersTotal := int (length (seenCommenters lo)),
        ClosedCommentersTotal := int (length (seenClosedCommenters lo))\<rparr>"

definition afterLoop ::
  "'e Engine_scheme \<Rightarrow> GitHubItem \<Rightarrow> Comment list \<Rightarrow> bool \<Rightarrow> Clock
     \<Rightarrow> Conversation \<times> Locals \<Rightarrow> Conversation" where
  \<comment> \<open>lines 181 to 223\<close>
  "afterLoop h i cs authorIsMember clk st =
     totals (snd st)
       (closedTag
         (lastCommentTags h i cs
           (assigneeTag
             (milestoneTag
               (questionTag (lastQuestion (snd st))
                 (holdTags authorIsMember clk (fst st)))))))"

definition conversation ::
  "'e Engine_scheme \<Rightarrow> GitHubItem \<Rightarrow> Comment list \<Rightarrow> time \<Rightarrow> Clock \<Rightarrow> panic + Conversation" where
  "conversation h i cs age clk =
     (let authorIsMember = isMember h (GetLogin (GetUser i)) (GetAuthorAssociation i)
      in case beforeLoop i authorIsMember age of
           Inl e \<Rightarrow> Inl e
         | Inr co \<Rightarrow>
             (case commentLoop h i authorIsMember (co, initialLocals) cs of
                Inl e \<Rightarrow> Inl e
              | Inr st \<Rightarrow>
                  let co = afterLoop h i cs authorIsMember clk st
                  in if AccumulatedHoldTime co > Since (sinceCheck clk) (ConversationCreated co)
                     then Inl HoldTimeExceedsAge
                     else Inr co))"

section \<open>Searches (package hubbub, the file with SearchAny)\<close>

text \<open>
  The three fields of a \<^verbatim>\<open>Filter\<close> that \<^verbatim>\<open>NeedsClosed\<close> reads.
\<close>

record Filter =
  ClosedCommenters :: string
  ClosedComments :: string
  FilterState :: string

fun NeedsClosed :: "'f Filter_scheme list \<Rightarrow> bool" where
  "NeedsClosed [] = False"
| "NeedsClosed (f # fs) =
     (if ClosedCommenters f \<noteq> '''' then True
      else if ClosedComments f \<noteq> '''' then True
      else if FilterState f \<noteq> '''' \<and> FilterState f \<noteq> ''open'' then True
      else NeedsClosed fs)"

text \<open>
  What \<^verbatim>\<open>cachedIssues\<close> and \<^verbatim>\<open>cachedPRs\<close> return: the items, the time they were
  fetched at, and the error.
\<close>

record Fetched =
  fetchedItems :: "GitHubItem list"
  fetchedAt :: time
  fetchErr :: "string option"

text \<open>
  The searches pass every item through filters and enrichments that live in other
  files (\<^verbatim>\<open>preFetchMatch\<close>, \<^verbatim>\<open>IssueSummary\<close>, \<^verbatim>\<open>PRSummary\<close>, \<^verbatim>\<open>FindSimilar\<close>,
  \<^verbatim>\<open>postFetchMatch\<close>, \<^verbatim>\<open>addEvents\<close>, \<^verbatim>\<open>postEventsMatch\<close> and the cached fetches of
  comments, timelines and reviews). One pass of the loop body is a parameter here: from
  the state of the engine, the item and the timestamps the body reads, it gives the new
  state and the conversation to append, or none when the body ends in \<^verbatim>\<open>continue\<close>.
  The two sub-listings are fetched by two goroutines; the model runs the open one first.
\<close>

record ('s, 'c) SearchEngine = Engine +
  openByDefault :: "Filter list \<Rightarrow> Filter list"
  examineIssue :: "'s \<Rightarrow> Filter list \<Rightarrow> GitHubItem \<Rightarrow> time \<Rightarrow> time \<Rightarrow> 's \<times> 'c option"
  examinePR :: "'s \<Rightarrow> Filter list \<Rightarrow> GitHubItem \<Rightarrow> time \<Rightarrow> 's \<times> 'c option"

definition debugLookup :: "'e Engine_scheme \<Rightarrow> int \<Rightarrow> bool" where
  \<comment> \<open>\<^verbatim>\<open>h.debug[n]\<close>\<close>
  "debugLookup h n = (case map_of (debug h) n of None \<Rightarrow> False | Some b \<Rightarrow> b)"

fun dedupIssues ::
  "'e Engine_scheme \<Rightarrow> string list \<Rightarrow> GitHubItem list \<Rightarrow> GitHubItem list" where
  \<comment> \<open>lines 86 to 106, \<open>seen\<close> holding the keys of the map \<^verbatim>\<open>seen\<close>\<close>
  "dedupIssues h seen [] = []"
| "dedupIssues h seen (i # rest) =
     (if length (debug h) > 0 \<and> \<not> debugLookup h (GetNumber i) then dedupIssues h seen rest
      else if GetURL i \<in> set seen then dedupIssues h seen rest
      else i # dedupIssues h (GetURL i # seen) rest)"

fun mostRecentUpdate :: "time \<Rightarrow> GitHubItem list \<Rightarrow> time" where
  "mostRecentUpdate m [] = m"
| "mostRecentUpdate m (i # rest) =
     mostRecentUpdate (if After (GetUpdatedAt i) m then GetUpdatedAt i else m) rest"

fun examineAll ::
  "('s \<Rightarrow> GitHubItem \<Rightarrow> 's \<times> 'c option) \<Rightarrow> 's \<Rightarrow> 'c list \<Rightarrow> GitHubItem list \<Rightarrow> 's \<times> 'c list" where
  "examineAll f st filtered [] = (st, filtered)"
| "examineAll f st filtered (i # rest) =
     (case f st i of
        (st', None) \<Rightarrow> examineAll f st' filtered rest
      | (st', Some co) \<Rightarrow> examineAll f st' (filtered @ [co]) rest)"

definition SearchIssues ::
  "('s, 'c, 'e) SearchEngine_scheme \<Rightarrow> 's \<Rightarrow> Filter list \<Rightarrow> time \<Rightarrow> Fetched \<Rightarrow> Fetched
     \<Rightarrow> 's \<times> 'c list \<times> time \<times> string option" where
  \<comment> \<open>\<open>now\<close> is the reading of \<^verbatim>\<open>time.Now()\<close>; \<open>openF\<close> and \<open>closedF\<close> are what the two
      calls of \<^verbatim>\<open>cachedIssues\<close> return\<close>
  "SearchIssues h st fs now openF closedF =
     (let fs = openByDefault h fs;
          age = now;
          failed = (fetchErr openF \<noteq> None);
          age = (if \<not> failed \<and> Before (fetchedAt openF) age then fetchedAt openF else age);
          opn = (if failed then [] else fetchedItems openF);
          age = (if NeedsClosed fs \<and> Before (fetchedAt closedF) age then fetchedAt closedF else age);
          closed = (if NeedsClosed fs then fetchedItems closedF else []);
          is = dedupIssues h [] (opn @ closed);
          recent = mostRecentUpdate 0 is;
          (st', filtered) = examineAll (\<lambda>s i. examineIssue h s fs i age recent) st [] is
      in (st', filtered, age, None))"

fun latestUpdate :: "time \<Rightarrow> GitHubItem list \<Rightarrow> time" where
  \<comment> \<open>lines 259 to 264\<close>
  "latestUpdate latest [] = latest"
| "latestUpdate latest (pr # rest) =
     latestUpdate (if After (GetUpdatedAt pr) latest then GetUpdatedAt pr else latest) rest"

fun inspectPRs :: "'e Engine_scheme \<Rightarrow> GitHubItem list \<Rightarrow> GitHubItem list" where
  \<comment> \<open>lines 260 to 276: the pull requests that go on to the filters\<close>
  "inspectPRs h [] = []"
| "inspectPRs h (pr # rest) =
     (if length (debug h) > 0 \<and> \<not> debugLookup h (GetNumber pr) then inspectPRs h rest
      else pr # inspectPRs h rest)"

definition SearchPullRequests ::
  "('s, 'c, 'e) SearchEngine_scheme \<Rightarrow> 's \<Rightarrow> Filter list \<Rightarrow> time \<Rightarrow> Fetched \<Rightarrow> Fetched
     \<Rightarrow> 's \<times> 'c list \<times> time \<times> string option" where
  "SearchPullRequests h st fs now openF closedF =
     (let fs = openByDefault h fs;
          age = now;
          failed = (fetchErr openF \<noteq> None);
          age = (if \<not> failed \<and> Before (fetchedAt openF) age then fetchedAt openF else age);
          opn = (if failed then [] else fetchedItems openF);
          got = (NeedsClosed fs \<and> fetchErr closedF = None);
          age = (if got \<and> Before (fetchedAt closedF) age then fetchedAt closedF else age);
          closed = (if got then fetchedItems closedF else []);
          latest = latestUpdate 0 (opn @ closed);
          prs = inspectPRs h (opn @ closed);
          (st', filtered) = examineAll (\<lambda>s pr. examinePR h s fs pr age) st [] prs
      in (st', filtered, latest, None))"

definition SearchAny ::
  "('s, 'c, 'e) SearchEngine_scheme \<Rightarrow> 's \<Rightarrow> Filter list \<Rightarrow> time \<Rightarrow> Fetched \<Rightarrow> Fetched
     \<Rightarrow> time \<Rightarrow> Fetched \<Rightarrow> Fetched \<Rightarrow> 's \<times> 'c list \<times> time \<times> string option" where
  \<comment> \<open>\<open>nowI\<close>, \<open>openI\<close>, \<open>closedI\<close> belong to the search of issues, \<open>nowP\<close>, \<open>openP\<close>,
      \<open>closedP\<close> to the search of pull requests\<close>
  "SearchAny h st fs nowI openI closedI nowP openP closedP =
     (case SearchIssues h st fs nowI openI closedI of
        (st1, cs, ts, err) \<Rightarrow>
          if err \<noteq> None then (st1, cs, ts, err)
          else
            (case SearchPullRequests h st1 fs nowP openP closedP of
               (st2, pcs, pts, err) \<Rightarrow>
                 if err \<noteq> None then (st2, cs, ts, err)
                 else (st2, cs @ pcs, (if After pts ts then pts else ts), None)))"

section \<open>The updater (package updater)\<close>

text \<open>
  A \<^verbatim>\<open>CollectionResult\<close> with the two timestamps the updater reads; what the rules
  matched is a type parameter. \<^verbatim>\<open>ExecuteCollection\<close> and \<^verbatim>\<open>LookupCollection\<close>
  belong to package \<^verbatim>\<open>triage\<close>: their outcomes are arguments of \<open>update\<close> and
  \<open>RefreshCollection\<close>. The cache holds the results that \<open>update\<close> stored.
\<close>

record 'r CollectionResult =
  ResultCreated :: time
  OldestInput :: time
  RuleResults :: 'r

record Collection =
  CollectionID :: string
  UsedForStats :: bool

record 'r Updater =
  maxRefresh :: duration
  minRefresh :: duration
  cache :: "string \<rightharpoonup> 'r CollectionResult"
  lastRequest :: "string \<rightharpoonup> time"
  secondLastRequest :: "string \<rightharpoonup> time"
  startTime :: time
  updateCycles :: int

datatype reason = CycleCount int | NotCached | OlderThanMaxRefresh | ForceMode | Popularity

definition lastRequested :: "('r, 'u) Updater_scheme \<Rightarrow> string \<Rightarrow> time" where
  "lastRequested u cid = (case lastRequest u cid of None \<Rightarrow> 0 | Some lr \<Rightarrow> lr)"

definition secondLastRequested :: "('r, 'u) Updater_scheme \<Rightarrow> string \<Rightarrow> time" where
  "secondLastRequested u cid =
     (case secondLastRequest u cid of None \<Rightarrow> startTime u | Some lr \<Rightarrow> lr)"

definition recordAccess :: "('r, 'u) Updater_scheme \<Rightarrow> string \<Rightarrow> time \<Rightarrow> ('r, 'u) Updater_scheme" where
  "recordAccess u cid now =
     (let last = lastRequested u cid;
          u = (if \<not> IsZero last then u\<lparr>secondLastRequest := (secondLastRequest u)(cid \<mapsto> last)\<rparr>
               else u)
      in u\<lparr>lastRequest := (lastRequest u)(cid \<mapsto> now)\<rparr>)"

definition needAge :: "('r, 'u) Updater_scheme \<Rightarrow> string \<Rightarrow> time \<Rightarrow> duration" where
  \<comment> \<open>lines 271 to 273, \<open>now\<close> being the clock read on line 271\<close>
  "needAge u cid now =
     (let requestAge = Since now (lastRequested u cid);
          secondRequestDiff = Sub (lastRequested u cid) (secondLastRequested u cid)
      in dadd (dquot (dadd requestAge secondRequestDiff) 2) (minRefresh u))"

definition shouldUpdate ::
  "('r, 'u) Updater_scheme \<Rightarrow> string \<Rightarrow> bool \<Rightarrow> bool \<Rightarrow> time \<Rightarrow> time \<Rightarrow> reason option" where
  \<comment> \<open>\<open>now1\<close> is the clock read on line 243, \<open>now2\<close> the clock read on line 271\<close>
  "shouldUpdate u cid usedForStats force now1 now2 =
     (if updateCycles u < 2 then Some (CycleCount (updateCycles u))
      else case cache u cid of
             None \<Rightarrow> Some NotCached
           | Some result \<Rightarrow>
               let resultAge = Since now1 (ResultCreated result);
                   maxR = (if usedForStats then dmul (maxRefresh u) 3 else maxRefresh u)
               in if resultAge > maxR then Some OlderThanMaxRefresh
                  else if force then Some ForceMode
                  else if IsZero (lastRequested u cid) then None
                  else if resultAge < minRefresh u then None
                  else if resultAge > needAge u cid now2 \<and> \<not> usedForStats then Some Popularity
                  else None)"

definition update ::
  "('r, 'u) Updater_scheme \<Rightarrow> Collection \<Rightarrow> string + 'r CollectionResult
     \<Rightarrow> ('r, 'u) Updater_scheme \<times> string option" where
  \<comment> \<open>\<open>executed\<close> is what \<^verbatim>\<open>ExecuteCollection\<close> returns for the collection\<close>
  "update u s executed =
     (case executed of
        Inl err \<Rightarrow> (u, Some err)
      | Inr r \<Rightarrow> (u\<lparr>cache := (cache u)(CollectionID s \<mapsto> r)\<rparr>, None))"

definition RefreshCollection ::
  "('r, 'u) Updater_scheme \<Rightarrow> string + Collection \<Rightarrow> bool \<Rightarrow> time \<Rightarrow> time
     \<Rightarrow> string + 'r CollectionResult \<Rightarrow> ('r, 'u) Updater_scheme \<times> bool \<times> string option" where
  \<comment> \<open>\<open>looked\<close> is what \<^verbatim>\<open>LookupCollection\<close> returns for the id\<close>
  "RefreshCollection u looked force now1 now2 executed =
     (case looked of
        Inl err \<Rightarrow> (u, False, Some err)
      | Inr s \<Rightarrow>
          (case shouldUpdate u (CollectionID s) (UsedForStats s) force now1 now2 of
             None \<Rightarrow> (u, False, None)
           | Some why \<Rightarrow>
               (case update u s executed of (u', err) \<Rightarrow> (u', True, err))))"

text \<open>
  The conditions under which the specification says \<^verbatim>\<open>ShouldUpdate\<close> gives a reason,
  in its words, for comparison with \<open>shouldUpdate\<close>.
\<close>

definition documentedReason ::
  "('r, 'u) Updater_scheme \<Rightarrow> string \<Rightarrow> bool \<Rightarrow> bool \<Rightarrow> time \<Rightarrow> time \<Rightarrow> bool" where
  "documentedReason u cid usedForStats force now1 now2 =
     (updateCycles u < 2
      \<or> cache u cid = None
      \<or> (case cache u cid of
            None \<Rightarrow> False
          | Some result \<Rightarrow>
              let resultAge = Since now1 (ResultCreated result)
              in resultAge > (if usedForStats then dmul (maxRefresh u) 3 else maxRefresh u)
                 \<or> force
                 \<or> (\<not> IsZero (lastRequested u cid) \<and> resultAge \<ge> minRefresh u
                     \<and> resultAge > needAge u cid now2)))"

section \<open>Sample data\<close>

text \<open>
  Concrete values at which the theorems below are instantiated. Times are around the
  year 2020: \<open>63700000000\<close> seconds after the zero time.
\<close>

definition sampleThing :: "unit Thing" where
  "sampleThing = \<lparr>Created = 63700000000 * Second, Payload = ()\<rparr>"

definition sampleCache :: "unit cache" where
  "sampleCache =
     cache_Set createMem ''issues'' (ThingPtr (Some sampleThing)) MaxLoadAge
       (63700000005 * Second)"

section \<open>Properties of the in-memory cache\<close>

text \<open>
  Claim C1. For every key \<open>k\<close> and timestamp \<open>t\<close>, \<^verbatim>\<open>GetNewerThan(k, t)\<close> returns a
  non-nil entry exactly when an entry is present under \<open>k\<close> (found by the cache, not
  expired) and its created timestamp is at least \<open>t\<close>; so whenever it returns an
  entry, that entry's created timestamp is at least \<open>t\<close>.
\<close>

theorem newerThanMem_iff:
  "(newerThanMem c k t now = Inr (Some th)) =
     (cache_Get c k now = Some (ThingPtr (Some th)) \<and> t \<le> Created th)"
  by (auto simp: newerThanMem_def Before_def Let_def split: option.splits object.splits)

theorem newerThanMem_iff_witness:
  "newerThanMem sampleCache ''issues'' (63700000000 * Second) (63700000009 * Second)
     = Inr (Some sampleThing)
   \<and> newerThanMem sampleCache ''issues'' (63700000001 * Second) (63700000009 * Second)
     \<noteq> Inr (Some sampleThing)"
  using newerThanMem_iff [of sampleCache "''issues''" "63700000000 * Second"
          "63700000009 * Second" sampleThing]
        newerThanMem_iff [of sampleCache "''issues''" "63700000001 * Second"
          "63700000009 * Second" sampleThing]
  by (simp add: sampleCache_def sampleThing_def cache_Get_def cache_Set_def createMem_def
        MaxLoadAge_def Hour_def Second_def UnixNano_def unixEpoch_def wrap64_def Add_def)

lemma setMem_all_things: "all_things c \<Longrightarrow> setMem c key th now = Inr c' \<Longrightarrow> all_things c'"
  by (auto simp: all_things_def setMem_def cache_Set_def Let_def split: option.splits if_splits)

lemma deleteOlderMem_all_things:
  "all_things c \<Longrightarrow> deleteOlderMem c key t now = Inr c' \<Longrightarrow> all_things c'"
  by (auto simp: all_things_def deleteOlderMem_def cache_Delete_def
           split: sum.splits option.splits if_splits)

lemma DeleteExpired_all_things: "all_things c \<Longrightarrow> all_things (cache_DeleteExpired c now)"
  by (auto simp: all_things_def cache_DeleteExpired_def split: option.splits if_splits)

lemma set_populated_all_things: "set_populated c \<Longrightarrow> all_things c"
proof (induction rule: set_populated.induct)
  case sp_create
  show ?case by (simp add: all_things_def createMem_def)
next
  case (sp_set c key th now c')
  then show ?case by (blast intro: setMem_all_things)
next
  case (sp_delete c key t now c')
  then show ?case by (blast intro: deleteOlderMem_all_things)
next
  case (sp_expire c now)
  then show ?case by (simp add: DeleteExpired_all_things)
qed

lemma all_things_Get:
  "all_things c \<Longrightarrow> cache_Get c k now = Some x \<Longrightarrow> \<exists>v. x = ThingPtr (Some v)"
  unfolding all_things_def cache_Get_def
  by (cases "c k") (auto split: if_splits)

lemma all_things_no_panic: "all_things c \<Longrightarrow> \<exists>r. newerThanMem c k t now = Inr r"
proof (cases "cache_Get c k now")
  case None
  then show ?thesis by (simp add: newerThanMem_def)
next
  case (Some x)
  assume "all_things c"
  then obtain v where "x = ThingPtr (Some v)" using Some all_things_Get by blast
  with Some show ?thesis by (simp add: newerThanMem_def)
qed

text \<open>
  Claim C10. In a cache populated only through \<^verbatim>\<open>setMem\<close>, every stored value is a
  non-nil \<^verbatim>\<open>*Thing\<close>, so \<^verbatim>\<open>newerThanMem\<close> never takes the branch of the failed type
  assertion and never dereferences nil: it returns, with an entry or with nil.
\<close>

theorem set_populated_never_nil:
  "set_populated c \<Longrightarrow> all_things c \<and> (\<exists>r. newerThanMem c k t now = Inr r)"
  using set_populated_all_things all_things_no_panic by blast

theorem set_populated_never_nil_witness:
  "set_populated sampleCache \<and> all_things sampleCache
   \<and> (\<exists>r. newerThanMem sampleCache ''issues'' (63700000000 * Second) (63700000009 * Second)
            = Inr r)"
proof -
  have "setMem createMem ''issues'' (Some sampleThing) (63700000005 * Second)
          = Inr sampleCache"
    by (simp add: setMem_def sampleCache_def sampleThing_def IsZero_def Second_def)
  then have p: "set_populated sampleCache"
    using sp_create sp_set by blast
  show ?thesis
    using p set_populated_never_nil [OF p] by simp
qed

end
